theory Spec2Isabelle
  imports Complex_Main "HOL-Library.AList" "HOL-Library.Multiset" "HOL-Library.Sublist"
begin

section \<open>Conventions\<close>

text \<open>
  Python \<^verbatim>\<open>int\<close> is \<^typ>\<open>int\<close>. Python \<^verbatim>\<open>float\<close> is modelled by \<^typ>\<open>rat\<close>:
  every arithmetic operation is exact, so the rounding error of a binary float is not
  part of the model. \<^verbatim>\<open>time.time()\<close> is an argument \<open>now\<close> of every operation that
  reads the clock and \<^verbatim>\<open>math.exp\<close> is an argument \<open>expf\<close>. A Python \<^verbatim>\<open>dict\<close> keeps
  its insertion order, so it is an association list with distinct keys.
\<close>

subsection \<open>Rendering an integer, as \<^verbatim>\<open>str(n)\<close> and an f-string do\<close>

definition digit_char :: "nat \<Rightarrow> char" where
  "digit_char n = ''0123456789'' ! (n mod 10)"

function str_nat :: "nat \<Rightarrow> string" where
  "str_nat n = (if n < 10 then [digit_char n] else str_nat (n div 10) @ [digit_char n])"
  by pat_completeness auto
termination
  by (relation "measure id") auto

declare str_nat.simps [simp del]

definition str_int :: "int \<Rightarrow> string" where
  "str_int i = (if i < 0 then CHR ''-'' # str_nat (nat (- i)) else str_nat (nat i))"

section \<open>Cost/value engine (pipeline/pipeline_core/cost_engine.py)\<close>

record SourceStats =
  name :: string
  priority :: rat
  attempts :: int
  hits :: int
  misses :: int
  total_cost :: rat
  total_value :: rat
  patience :: int
  exhausted :: bool
  last_hit_at :: int
  created_at :: rat

definition hit_rate :: "SourceStats \<Rightarrow> rat" where
  "hit_rate s = of_int (hits s) / of_int (max 1 (attempts s))"

definition roi :: "SourceStats \<Rightarrow> rat" where
  "roi s = total_value s / max (1 / 100) (total_cost s)"

definition drought :: "SourceStats \<Rightarrow> int" where
  "drought s = attempts s - last_hit_at s"

definition effective_priority :: "SourceStats \<Rightarrow> rat" where
  "effective_priority s =
     (if exhausted s then 0
      else if attempts s = 0 then priority s
      else
        let base = priority s * (3 / 10);
            perf = hit_rate s * 100 * (1 / 2);
            recency_penalty = min 30 (of_int (drought s) * (3 / 2));
            roi_bonus = min 20 (roi s * 5)
        in max 0 (base + perf - recency_penalty + roi_bonus))"

record ActionLog =
  source :: string
  query :: string
  found :: int
  cost :: rat
  "value" :: rat
  roi_predicted :: rat
  decision :: string
  timestamp :: rat

record CostEngine =
  target_count :: int
  patience_initial :: int
  patience_recharge :: int
  patience_drain :: int
  epsilon :: rat
  min_roi :: rat
  global_budget :: int
  sources :: "(string \<times> SourceStats) list"
  total_found :: int
  total_actions :: int
  action_log :: "ActionLog list"
  started_at :: rat
  stopped :: bool
  stop_reason :: string

text \<open>\<^verbatim>\<open>CostEngine.__init__\<close>, with the constructor's arguments spelled out.\<close>

definition new_engine :: "rat \<Rightarrow> int \<Rightarrow> int \<Rightarrow> int \<Rightarrow> int \<Rightarrow> rat \<Rightarrow> rat \<Rightarrow> int \<Rightarrow> CostEngine" where
  "new_engine now tc pinit prech pdrain eps mroi budget =
     \<lparr>target_count = tc, patience_initial = pinit, patience_recharge = prech,
      patience_drain = pdrain, epsilon = eps, min_roi = mroi, global_budget = budget,
      sources = [], total_found = 0, total_actions = 0, action_log = [],
      started_at = now, stopped = False, stop_reason = ''''\<rparr>"

definition get_source :: "CostEngine \<Rightarrow> string \<Rightarrow> SourceStats option" where
  "get_source e nm = map_of (sources e) nm"

definition add_source :: "rat \<Rightarrow> CostEngine \<Rightarrow> string \<Rightarrow> rat \<Rightarrow> CostEngine" where
  "add_source now e nm prio =
     (case get_source e nm of
        Some _ \<Rightarrow> e
      | None \<Rightarrow> e\<lparr>sources := sources e @
          [(nm, \<lparr>name = nm, priority = prio, attempts = 0, hits = 0, misses = 0,
                 total_cost = 0, total_value = 0, patience = patience_initial e,
                 exhausted = False, last_hit_at = 0, created_at = now\<rparr>)]\<rparr>)"

definition predict_roi :: "(rat \<Rightarrow> rat) \<Rightarrow> CostEngine \<Rightarrow> string \<Rightarrow> rat \<Rightarrow> rat" where
  "predict_roi expf e source_name estimated_cost =
     (case get_source e source_name of
        None \<Rightarrow> 0
      | Some src \<Rightarrow>
          if exhausted src then 0
          else
            let prior = priority src / 100;
                p_success =
                  (if attempts src = 0 then prior
                   else let alpha = min 1 (of_int (attempts src) / 10)
                        in (1 - alpha) * prior + alpha * hit_rate src);
                drought_decay = expf (- (5 / 100) * of_int (drought src));
                p_adjusted = p_success * drought_decay
            in p_adjusted / max (1 / 100) estimated_cost)"

text \<open>\<^verbatim>\<open>_stop\<close>: the recorded reason is the f-string \<^verbatim>\<open>"{reason}: {detail}"\<close>.\<close>

definition stop :: "CostEngine \<Rightarrow> string \<Rightarrow> string \<Rightarrow> CostEngine" where
  "stop e reason detail = e\<lparr>stopped := True, stop_reason := reason @ '': '' @ detail\<rparr>"

definition force_stop :: "CostEngine \<Rightarrow> CostEngine" where
  "force_stop e = stop e ''manual'' ''Stopped by user''"

definition should_stop :: "CostEngine \<Rightarrow> bool \<times> CostEngine" where
  "should_stop e =
     (if stopped e then (True, e)
      else if total_found e \<ge> target_count e then
        (True, stop e ''target_reached''
           (''Found '' @ str_int (total_found e) @ ''/'' @ str_int (target_count e) @ '' targets''))
      else if total_actions e \<ge> global_budget e then
        (True, stop e ''budget_exhausted''
           (''Used '' @ str_int (total_actions e) @ ''/'' @ str_int (global_budget e) @ '' actions''))
      else
        let active = filter (\<lambda>s. \<not> exhausted s) (map snd (sources e))
        in if active = [] \<and> sources e \<noteq> [] then
             (True, stop e ''all_sources_exhausted''
                (''All '' @ str_int (int (length (sources e))) @ '' sources exhausted''))
           else (False, e))"

definition report_result ::
  "(rat \<Rightarrow> rat) \<Rightarrow> rat \<Rightarrow> CostEngine \<Rightarrow> string \<Rightarrow> int \<Rightarrow> rat \<Rightarrow> rat \<Rightarrow> string \<Rightarrow> CostEngine" where
  "report_result expf now e source_name fnd cst val qry =
     (case get_source e source_name of
        None \<Rightarrow> e
      | Some src \<Rightarrow>
          let val1 = (if fnd > 0 \<and> val = 0 then of_int fnd * 10 else val);
              src1 = src\<lparr>attempts := attempts src + 1, total_cost := total_cost src + cst\<rparr>;
              e1 = e\<lparr>total_actions := total_actions e + 1\<rparr>;
              (src2, e2, dec) =
                (if fnd > 0 then
                   (src1\<lparr>hits := hits src1 + fnd,
                         total_value := total_value src1 + val1,
                         patience := min (patience_initial e1 * 2)
                                         (patience src1 + patience_recharge e1),
                         last_hit_at := attempts src1\<rparr>,
                    e1\<lparr>total_found := total_found e1 + fnd\<rparr>,
                    ''hit'')
                 else
                   let src_m = src1\<lparr>misses := misses src1 + 1,
                                    patience := patience src1 - patience_drain e1\<rparr>
                   in if patience src_m \<le> 0
                      then (src_m\<lparr>exhausted := True, patience := 0\<rparr>, e1, ''exhausted'')
                      else (src_m, e1, ''miss''));
              e3 = e2\<lparr>sources := AList.update source_name src2 (sources e2)\<rparr>;
              r = predict_roi expf e3 source_name cst
          in e3\<lparr>action_log := action_log e3 @
                 [\<lparr>source = source_name, query = qry, found = fnd, cost = cst, value = val1,
                   roi_predicted = r, decision = dec, timestamp = now\<rparr>]\<rparr>)"


text \<open>
  A run of consecutive misses on one source: each element of the list gives the clock,
  the cost, the value and the query of one \<^verbatim>\<open>report_result(name, found=0, ...)\<close> call.
\<close>

fun report_misses ::
  "(rat \<Rightarrow> rat) \<Rightarrow> CostEngine \<Rightarrow> string \<Rightarrow> (rat \<times> rat \<times> rat \<times> string) list \<Rightarrow> CostEngine" where
  "report_misses expf e nm [] = e"
| "report_misses expf e nm ((now, cst, val, qry) # ms) =
     report_misses expf (report_result expf now e nm 0 cst val qry) nm ms"

text \<open>The mutating calls of the engine, and a run of them.\<close>

datatype engine_op =
    AddSource rat string rat
  | ReportResult rat string int rat rat string
  | ShouldStop
  | ForceStop

fun run_op :: "(rat \<Rightarrow> rat) \<Rightarrow> engine_op \<Rightarrow> CostEngine \<Rightarrow> CostEngine" where
  "run_op expf (AddSource now nm prio) e = add_source now e nm prio"
| "run_op expf (ReportResult now nm fnd cst val qry) e = report_result expf now e nm fnd cst val qry"
| "run_op expf ShouldStop e = snd (should_stop e)"
| "run_op expf ForceStop e = force_stop e"

definition run_ops :: "(rat \<Rightarrow> rat) \<Rightarrow> engine_op list \<Rightarrow> CostEngine \<Rightarrow> CostEngine" where
  "run_ops expf ops e = fold (run_op expf) ops e"

section \<open>Candidates (models/data_models.py)\<close>


record Fragment =
  fragment_type :: string
  frag_value :: string
  source_url :: string
  source_type :: string
  frag_context :: string
  search_query :: string
  search_wave :: int
  frag_timestamp :: rat

text \<open>
  An element of \<^verbatim>\<open>city_evidence\<close> is a dict, of which only the key \<^verbatim>\<open>source_url\<close> is
  read (\<open>None\<close> when the key is absent), or a value that is not a dict.
\<close>

datatype evidence = NotADict | EvidenceDict "string option"






section \<open>Strategy planner (pipeline/pipeline_core/strategy_planner.py)\<close>

text \<open>
  \<^verbatim>\<open>str.replace(old, new)\<close>: the occurrences of \<open>old\<close> are replaced from left to right
  and do not overlap; an empty \<open>old\<close> matches before every character and at the end.
\<close>

function py_replace :: "string \<Rightarrow> string \<Rightarrow> string \<Rightarrow> string" where
  "py_replace old new s =
     (if old = [] then new @ concat (map (\<lambda>c. c # new) s)
      else if s = [] then []
      else if prefix old s then new @ py_replace old new (drop (length old) s)
      else hd s # py_replace old new (tl s))"
  by pat_completeness auto
termination
  by (relation "measure (\<lambda>(old, new, s). length s)") auto

declare py_replace.simps [simp del]

text \<open>
  The substitution both \<^verbatim>\<open>_flatten_steps\<close> and \<^verbatim>\<open>refine_queries\<close> apply to a query
  template: \<^verbatim>\<open>q.replace("{city}", city).replace("{state}", state).replace("{country}", "USA")\<close>.
\<close>

definition fill_placeholders :: "string \<Rightarrow> string \<Rightarrow> string \<Rightarrow> string" where
  "fill_placeholders city state q =
     py_replace ''{country}'' ''USA'' (py_replace ''{state}'' state (py_replace ''{city}'' city q))"

datatype Step = Step
  (step_id: string)
  (step_action: string)
  (step_description: string)
  (step_queries: "string list")
  (expected_output: string)
  (sub_steps: "Step list")
  (step_source_type: string)
  (step_priority: rat)
  (depends_on: string)
  (condition: string)

record Strategy =
  strat_name :: string
  tier :: string
  tier_label :: string
  strat_description :: string
  steps :: "Step list"
  estimated_cost :: string
  estimated_yield :: string
  strat_priority :: int

text \<open>One element of the list \<^verbatim>\<open>flatten_queries\<close> returns (a dict in the source).\<close>

record QueryDescriptor =
  qd_query :: string
  qd_strategy :: string
  qd_tier :: string
  qd_step_id :: string
  qd_step_action :: string
  qd_source_type :: string
  qd_priority :: rat
  qd_condition :: string

definition descriptor :: "string \<Rightarrow> string \<Rightarrow> string \<Rightarrow> string \<Rightarrow> Step \<Rightarrow> string \<Rightarrow> QueryDescriptor" where
  "descriptor strat_nm tr city state step q =
     \<lparr>qd_query = fill_placeholders city state q, qd_strategy = strat_nm, qd_tier = tr,
      qd_step_id = step_id step, qd_step_action = step_action step,
      qd_source_type = step_source_type step, qd_priority = step_priority step,
      qd_condition = condition step\<rparr>"

text \<open>
  \<^verbatim>\<open>_flatten_steps\<close> appends to the list \<open>result\<close> it is given; the model returns the
  extended list.
\<close>

fun flatten_steps ::
    "string \<Rightarrow> string \<Rightarrow> string \<Rightarrow> string \<Rightarrow> Step list \<Rightarrow> QueryDescriptor list \<Rightarrow> QueryDescriptor list"
  and flatten_step ::
    "string \<Rightarrow> string \<Rightarrow> string \<Rightarrow> string \<Rightarrow> Step \<Rightarrow> QueryDescriptor list \<Rightarrow> QueryDescriptor list"
  where
  "flatten_steps strat_nm tr city state [] result = result"
| "flatten_steps strat_nm tr city state (s # ss) result =
     flatten_steps strat_nm tr city state ss (flatten_step strat_nm tr city state s result)"
| "flatten_step strat_nm tr city state (Step i a d qs eo subs st pr dep cond) result =
     (let result1 = result @
            map (descriptor strat_nm tr city state (Step i a d qs eo subs st pr dep cond)) qs
      in if subs \<noteq> [] then flatten_steps strat_nm tr city state subs result1 else result1)"

text \<open>
  \<^verbatim>\<open>strategies or self.last_strategies\<close>: the argument \<open>strategies\<close> is \<open>None\<close> when
  the caller leaves it out, and the planner's last strategies stand in for \<open>None\<close> and
  for the empty list.
\<close>

definition strategies_or_last :: "Strategy list \<Rightarrow> Strategy list option \<Rightarrow> Strategy list" where
  "strategies_or_last last_strategies strategies =
     (case strategies of
        None \<Rightarrow> last_strategies
      | Some ss \<Rightarrow> if ss = [] then last_strategies else ss)"

text \<open>
  \<^verbatim>\<open>flatten_queries\<close>. \<^verbatim>\<open>result.sort(key=lambda x: x["priority"], reverse=True)\<close> is a
  stable sort by descending key, that is the stable ascending sort by the negated key.
\<close>

definition flatten_queries ::
  "Strategy list \<Rightarrow> Strategy list option \<Rightarrow> string \<Rightarrow> string \<Rightarrow> QueryDescriptor list" where
  "flatten_queries last_strategies strategies city state =
     (let strategies1 = strategies_or_last last_strategies strategies;
          result = fold (\<lambda>strat r. flatten_steps (strat_name strat) (tier strat) city state
                                      (steps strat) r) strategies1 []
      in sort_key (\<lambda>x. - qd_priority x) result)"

text \<open>
  The depth-first walk in the words of the specification: a step, then its sub-steps in
  order, each with its whole subtree; every query template of every step visited is
  substituted.
\<close>

fun preorder :: "Step \<Rightarrow> Step list" where
  "preorder (Step i a d qs eo subs st pr dep cond) =
     Step i a d qs eo subs st pr dep cond # concat (map preorder subs)"

definition walk_steps :: "string \<Rightarrow> string \<Rightarrow> string \<Rightarrow> string \<Rightarrow> Step list \<Rightarrow> QueryDescriptor list" where
  "walk_steps strat_nm tr city state ss =
     concat (map (\<lambda>s. map (descriptor strat_nm tr city state s) (step_queries s))
                 (concat (map preorder ss)))"

definition walk_all :: "string \<Rightarrow> string \<Rightarrow> Strategy list \<Rightarrow> QueryDescriptor list" where
  "walk_all city state strategies =
     concat (map (\<lambda>strat. walk_steps (strat_name strat) (tier strat) city state (steps strat))
                 strategies)"

section \<open>Entity-graph scorer (pipeline/pipeline_core/graph_scorer.py)\<close>

text \<open>
  The SQLite store is a record of tables, each a list of rows in rowid order. Every
  method runs in one transaction (\<^verbatim>\<open>with self._conn() as c\<close>), which commits when the
  body returns and rolls back when it raises: an operation that fails returns the error
  and no store. \<^verbatim>\<open>AUTOINCREMENT\<close> hands out one more than the largest rowid the table
  ever had, which the store keeps per table. Every connection sets
  \<^verbatim>\<open>PRAGMA foreign_keys=ON\<close>, so a row written to \<^verbatim>\<open>targets\<close>, \<^verbatim>\<open>scores\<close> or
  \<^verbatim>\<open>score_totals\<close> must reference an existing parent row, or the statement fails with
  \<^verbatim>\<open>sqlite3.IntegrityError\<close>. JSON columns hold the text \<^verbatim>\<open>json.dumps\<close> produced, except
  the score breakdown, which is kept as the dict it encodes.
\<close>

datatype db_error = IntegrityError | ValueError | KeyError

subsection \<open>\<^verbatim>\<open>int(s)\<close> on a string\<close>

definition is_py_space :: "char \<Rightarrow> bool" where
  "is_py_space c = (let n = (of_char c :: nat) in (9 \<le> n \<and> n \<le> 13) \<or> (28 \<le> n \<and> n \<le> 32))"

definition py_strip :: "string \<Rightarrow> string" where
  "py_strip s = dropWhile is_py_space (rev (dropWhile is_py_space (rev s)))"

definition digit_val :: "char \<Rightarrow> nat option" where
  "digit_val c = (let n = (of_char c :: nat) in if 48 \<le> n \<and> n \<le> 57 then Some (n - 48) else None)"

text \<open>The digits after the first one; a single underscore may stand between two digits.\<close>

fun parse_digits :: "nat \<Rightarrow> string \<Rightarrow> nat option" where
  "parse_digits acc [] = Some acc"
| "parse_digits acc [c] =
     (case digit_val c of None \<Rightarrow> None | Some v \<Rightarrow> Some (acc * 10 + v))"
| "parse_digits acc (c # d # ds) =
     (if c = CHR ''_'' then
        (case digit_val d of None \<Rightarrow> None | Some v \<Rightarrow> parse_digits (acc * 10 + v) ds)
      else
        (case digit_val c of None \<Rightarrow> None | Some v \<Rightarrow> parse_digits (acc * 10 + v) (d # ds)))"

definition py_int :: "string \<Rightarrow> db_error + int" where
  "py_int s =
     (let t = py_strip s;
          (neg, body) = (case t of
                           [] \<Rightarrow> (False, [])
                         | c # cs \<Rightarrow> if c = CHR ''-'' then (True, cs)
                                     else if c = CHR ''+'' then (False, cs)
                                     else (False, t))
      in case body of
           [] \<Rightarrow> Inl ValueError
         | d # ds \<Rightarrow>
             (case digit_val d of
                None \<Rightarrow> Inl ValueError
              | Some v \<Rightarrow>
                  (case parse_digits v ds of
                     None \<Rightarrow> Inl ValueError
                   | Some n \<Rightarrow> Inr (if neg then - int n else int n))))"

subsection \<open>Tables\<close>

record entity_row =
  ent_id :: int
  ent_name :: string
  ent_kind :: string
  ent_subkind :: string
  ent_city :: string
  ent_state :: string
  ent_country :: string
  ent_institution :: string
  ent_year :: int
  ent_source_url :: string
  ent_source_type :: string
  ent_status :: string
  ent_metadata :: string
  ent_created_at :: rat
  ent_updated_at :: rat

record target_row =
  tgt_id :: int
  tgt_entity_id :: int
  tgt_platform :: string
  tgt_url :: string
  tgt_name :: string
  tgt_description :: string
  tgt_followers :: int
  tgt_last_activity :: string
  tgt_is_active :: int
  tgt_keywords :: string
  tgt_location_detected :: int
  tgt_topic_detected :: int
  tgt_is_creator :: int
  tgt_external_links :: string
  tgt_raw_data :: string
  tgt_scanned_at :: rat

record criterion_row =
  crit_id :: int
  crit_name :: string
  crit_label :: string
  crit_description :: string
  crit_points :: int
  crit_category :: string
  crit_sort_order :: int

record score_row =
  sc_id :: int
  sc_target_id :: int
  sc_criterion_name :: string
  sc_met :: int
  sc_points_awarded :: int
  sc_evidence :: string
  sc_computed_at :: rat

text \<open>One entry of the breakdown \<^verbatim>\<open>details[cr["name"]]\<close>.\<close>

record score_detail =
  det_label :: string
  det_max :: int
  det_awarded :: int
  det_met :: bool
  det_evidence :: string

record score_total_row =
  tot_target_id :: int
  tot_total :: int
  tot_max_possible :: int
  tot_validated :: int
  tot_threshold :: int
  tot_details :: "(string \<times> score_detail) list"
  tot_computed_at :: rat

record graph_db =
  entities :: "entity_row list"
  entities_seq :: int
  targets :: "target_row list"
  targets_seq :: int
  criteria :: "criterion_row list"
  criteria_seq :: int
  scores :: "score_row list"
  scores_seq :: int
  score_totals :: "score_total_row list"
  config :: "(string \<times> string) list"

text \<open>The store \<^verbatim>\<open>_init_db\<close> creates on a fresh file.\<close>

definition empty_db :: graph_db where
  "empty_db = \<lparr>entities = [], entities_seq = 0, targets = [], targets_seq = 0,
               criteria = [], criteria_seq = 0, scores = [], scores_seq = 0,
               score_totals = [], config = []\<rparr>"

definition int_of_bool :: "bool \<Rightarrow> int" where
  "int_of_bool b = (if b then 1 else 0)"

definition or_default :: "'a \<Rightarrow> 'a option \<Rightarrow> 'a" where
  "or_default d v = (case v of None \<Rightarrow> d | Some x \<Rightarrow> x)"

subsection \<open>Configuration\<close>

definition set_config :: "graph_db \<Rightarrow> string \<Rightarrow> string \<Rightarrow> graph_db" where
  "set_config db k v = db\<lparr>config := AList.update k v (config db)\<rparr>"

definition get_config :: "graph_db \<Rightarrow> string \<Rightarrow> string \<Rightarrow> string" where
  "get_config db k dflt = or_default dflt (map_of (config db) k)"

text \<open>
  A dict of the list given to \<^verbatim>\<open>configure_criteria\<close>: \<^verbatim>\<open>cr["name"]\<close> raises when the
  key is absent, the other keys are read with \<^verbatim>\<open>cr.get\<close>.
\<close>

record criterion_spec =
  spec_name :: "string option"
  spec_label :: "string option"
  spec_description :: "string option"
  spec_points :: "int option"
  spec_category :: "string option"

text \<open>
  The loop of \<^verbatim>\<open>configure_criteria\<close> from index \<open>i\<close> on, over the rows inserted so far.
  \<^verbatim>\<open>name TEXT NOT NULL UNIQUE\<close> rejects a name that is already there.
\<close>

fun insert_criteria ::
  "int \<Rightarrow> criterion_spec list \<Rightarrow> criterion_row list \<times> int \<Rightarrow> db_error + (criterion_row list \<times> int)" where
  "insert_criteria i [] (rows, seq) = Inr (rows, seq)"
| "insert_criteria i (cr # crs) (rows, seq) =
     (case spec_name cr of
        None \<Rightarrow> Inl KeyError
      | Some nm \<Rightarrow>
          if nm \<in> set (map crit_name rows) then Inl IntegrityError
          else insert_criteria (i + 1) crs
                 (rows @ [\<lparr>crit_id = seq + 1, crit_name = nm,
                            crit_label = or_default nm (spec_label cr),
                            crit_description = or_default '''' (spec_description cr),
                            crit_points = or_default 0 (spec_points cr),
                            crit_category = or_default ''default'' (spec_category cr),
                            crit_sort_order = i\<rparr>],
                  seq + 1))"

definition configure_criteria :: "graph_db \<Rightarrow> criterion_spec list \<Rightarrow> int \<Rightarrow> db_error + graph_db" where
  "configure_criteria db crs threshold =
     (case insert_criteria 0 crs ([], criteria_seq db) of
        Inl err \<Rightarrow> Inl err
      | Inr (rows, seq) \<Rightarrow>
          Inr (set_config (db\<lparr>criteria := rows, criteria_seq := seq\<rparr>)
                 ''threshold'' (str_int threshold)))"

definition get_criteria :: "graph_db \<Rightarrow> criterion_row list" where
  "get_criteria db = sort_key crit_sort_order (criteria db)"

definition get_threshold :: "graph_db \<Rightarrow> db_error + int" where
  "get_threshold db = py_int (get_config db ''threshold'' ''60'')"

subsection \<open>Entities and targets\<close>

text \<open>
  The rowid an \<^verbatim>\<open>AUTOINCREMENT\<close> table gives a new row: one more than the largest rowid
  in the table and in its sequence counter.
\<close>

definition next_rowid :: "int \<Rightarrow> int list \<Rightarrow> int" where
  "next_rowid seq ids = fold max ids seq + 1"

text \<open>The keyword arguments \<^verbatim>\<open>add_entity\<close> reads, \<open>None\<close> for one that is not passed.\<close>

record entity_kwargs =
  kw_subkind :: "string option"
  kw_city :: "string option"
  kw_state :: "string option"
  kw_country :: "string option"
  kw_institution :: "string option"
  kw_year :: "int option"
  kw_source_url :: "string option"
  kw_source_type :: "string option"
  kw_status :: "string option"
  kw_metadata :: "string option"

text \<open>The row \<^verbatim>\<open>add_entity\<close> inserts, with the defaults of \<^verbatim>\<open>kwargs.get\<close>.\<close>

definition new_entity_row :: "rat \<Rightarrow> int \<Rightarrow> string \<Rightarrow> string \<Rightarrow> entity_kwargs \<Rightarrow> entity_row" where
  "new_entity_row now i nm kind kw =
     \<lparr>ent_id = i, ent_name = nm, ent_kind = kind,
      ent_subkind = or_default '''' (kw_subkind kw),
      ent_city = or_default '''' (kw_city kw),
      ent_state = or_default '''' (kw_state kw),
      ent_country = or_default '''' (kw_country kw),
      ent_institution = or_default '''' (kw_institution kw),
      ent_year = or_default 0 (kw_year kw),
      ent_source_url = or_default '''' (kw_source_url kw),
      ent_source_type = or_default '''' (kw_source_type kw),
      ent_status = or_default ''found'' (kw_status kw),
      ent_metadata = or_default ''{}'' (kw_metadata kw),
      ent_created_at = now, ent_updated_at = now\<rparr>"

definition add_entity :: "rat \<Rightarrow> graph_db \<Rightarrow> string \<Rightarrow> string \<Rightarrow> entity_kwargs \<Rightarrow> int \<times> graph_db" where
  "add_entity now db nm kind kw =
     (case find (\<lambda>r. ent_name r = nm \<and> ent_city r = or_default '''' (kw_city kw)) (entities db) of
        Some existing \<Rightarrow> (ent_id existing, db)
      | None \<Rightarrow>
          let i = next_rowid (entities_seq db) (map ent_id (entities db))
          in (i, db\<lparr>entities := entities db @ [new_entity_row now i nm kind kw],
                    entities_seq := i\<rparr>))"

definition get_entity :: "graph_db \<Rightarrow> int \<Rightarrow> entity_row option" where
  "get_entity db entity_id = find (\<lambda>r. ent_id r = entity_id) (entities db)"

record target_kwargs =
  kw_name :: "string option"
  kw_description :: "string option"
  kw_followers :: "int option"
  kw_last_activity :: "string option"
  kw_is_active :: "bool option"
  kw_keywords :: "string option"
  kw_location_detected :: "bool option"
  kw_topic_detected :: "bool option"
  kw_is_creator :: "bool option"
  kw_external_links :: "string option"
  kw_raw_data :: "string option"

text \<open>
  \<^verbatim>\<open>entity_id INTEGER REFERENCES entities(id)\<close>: a value that is not \<^verbatim>\<open>NULL\<close> must be the
  id of an entity. \<^verbatim>\<open>add_target\<close> always writes an integer, 0 included.
\<close>

definition entity_exists :: "graph_db \<Rightarrow> int \<Rightarrow> bool" where
  "entity_exists db entity_id = (entity_id \<in> set (map ent_id (entities db)))"

definition target_exists :: "graph_db \<Rightarrow> int \<Rightarrow> bool" where
  "target_exists db target_id = (target_id \<in> set (map tgt_id (targets db)))"

text \<open>
  \<^verbatim>\<open>UPDATE targets SET entity_id=? WHERE id=? AND entity_id=0\<close>, the backfill of the link.
\<close>

definition link_target :: "int \<Rightarrow> int \<Rightarrow> target_row \<Rightarrow> target_row" where
  "link_target target_id entity_id t =
     (if tgt_id t = target_id \<and> tgt_entity_id t = 0 then t\<lparr>tgt_entity_id := entity_id\<rparr> else t)"

text \<open>The row \<^verbatim>\<open>add_target\<close> inserts.\<close>

definition new_target_row ::
  "rat \<Rightarrow> int \<Rightarrow> string \<Rightarrow> int \<Rightarrow> string \<Rightarrow> target_kwargs \<Rightarrow> target_row" where
  "new_target_row now i url entity_id platform kw =
     \<lparr>tgt_id = i, tgt_entity_id = entity_id, tgt_platform = platform, tgt_url = url,
      tgt_name = or_default '''' (kw_name kw),
      tgt_description = or_default '''' (kw_description kw),
      tgt_followers = or_default 0 (kw_followers kw),
      tgt_last_activity = or_default '''' (kw_last_activity kw),
      tgt_is_active = int_of_bool (or_default False (kw_is_active kw)),
      tgt_keywords = or_default ''[]'' (kw_keywords kw),
      tgt_location_detected = int_of_bool (or_default False (kw_location_detected kw)),
      tgt_topic_detected = int_of_bool (or_default False (kw_topic_detected kw)),
      tgt_is_creator = int_of_bool (or_default False (kw_is_creator kw)),
      tgt_external_links = or_default ''[]'' (kw_external_links kw),
      tgt_raw_data = or_default ''{}'' (kw_raw_data kw),
      tgt_scanned_at = now\<rparr>"

definition add_target ::
  "rat \<Rightarrow> graph_db \<Rightarrow> string \<Rightarrow> int \<Rightarrow> string \<Rightarrow> target_kwargs \<Rightarrow> db_error + (int \<times> graph_db)" where
  "add_target now db url entity_id platform kw =
     (case find (\<lambda>r. tgt_url r = url) (targets db) of
        Some existing \<Rightarrow>
          if entity_id \<noteq> 0 then
            if (\<exists>t \<in> set (targets db). tgt_id t = tgt_id existing \<and> tgt_entity_id t = 0)
               \<and> \<not> entity_exists db entity_id
            then Inl IntegrityError
            else Inr (tgt_id existing,
                      db\<lparr>targets := map (link_target (tgt_id existing) entity_id) (targets db)\<rparr>)
          else Inr (tgt_id existing, db)
      | None \<Rightarrow>
          if \<not> entity_exists db entity_id then Inl IntegrityError
          else
            let i = next_rowid (targets_seq db) (map tgt_id (targets db))
            in Inr (i, db\<lparr>targets := targets db @ [new_target_row now i url entity_id platform kw],
                          targets_seq := i\<rparr>))"

definition get_target :: "graph_db \<Rightarrow> int \<Rightarrow> target_row option" where
  "get_target db target_id = find (\<lambda>r. tgt_id r = target_id) (targets db)"

subsection \<open>Scoring\<close>

text \<open>\<^verbatim>\<open>INSERT OR REPLACE\<close> removes the row that holds the unique key, then inserts.\<close>

definition set_criterion ::
  "rat \<Rightarrow> graph_db \<Rightarrow> int \<Rightarrow> string \<Rightarrow> bool \<Rightarrow> string \<Rightarrow> db_error + graph_db" where
  "set_criterion now db target_id criterion_name met evidence =
     (let cr = find (\<lambda>c. crit_name c = criterion_name) (criteria db);
          pts = (case cr of Some c \<Rightarrow> if met then crit_points c else 0 | None \<Rightarrow> 0)
      in if \<not> target_exists db target_id then Inl IntegrityError
         else
           let i = next_rowid (scores_seq db) (map sc_id (scores db))
           in Inr (db\<lparr>scores :=
                     filter (\<lambda>s. \<not> (sc_target_id s = target_id \<and> sc_criterion_name s = criterion_name))
                       (scores db) @
                     [\<lparr>sc_id = i, sc_target_id = target_id, sc_criterion_name = criterion_name,
                       sc_met = int_of_bool met, sc_points_awarded = pts,
                       sc_evidence = evidence, sc_computed_at = now\<rparr>],
                   scores_seq := i\<rparr>))"

text \<open>The dict \<^verbatim>\<open>compute_score\<close> returns.\<close>

record score_result =
  res_target_id :: int
  res_total :: int
  res_max_possible :: int
  res_validated :: bool
  res_threshold :: int
  res_details :: "(string \<times> score_detail) list"

text \<open>
  One turn of the loop over the configured criteria, on the running
  \<open>(total, max_possible, details)\<close>.
\<close>

definition score_step ::
  "graph_db \<Rightarrow> int \<Rightarrow> criterion_row \<Rightarrow> int \<times> int \<times> (string \<times> score_detail) list
     \<Rightarrow> int \<times> int \<times> (string \<times> score_detail) list" where
  "score_step db target_id cr acc =
     (case acc of (tot, maxp, dets) \<Rightarrow>
        let sc = find (\<lambda>s. sc_target_id s = target_id \<and> sc_criterion_name s = crit_name cr)
                   (scores db);
            awarded = (case sc of Some s \<Rightarrow> sc_points_awarded s | None \<Rightarrow> 0);
            met = (case sc of Some s \<Rightarrow> sc_met s \<noteq> 0 | None \<Rightarrow> False)
        in (tot + awarded, maxp + crit_points cr,
            AList.update (crit_name cr)
              \<lparr>det_label = crit_label cr, det_max = crit_points cr, det_awarded = awarded,
               det_met = met,
               det_evidence = (case sc of Some s \<Rightarrow> sc_evidence s | None \<Rightarrow> '''')\<rparr>
              dets))"

text \<open>
  The loop of \<^verbatim>\<open>compute_score\<close> over the configured criteria and the dict it returns,
  for the threshold read from the configuration.
\<close>

definition aggregate :: "graph_db \<Rightarrow> int \<Rightarrow> int \<Rightarrow> score_result" where
  "aggregate db target_id threshold =
     (case fold (score_step db target_id) (get_criteria db) (0, 0, []) of
        (tot, maxp, dets) \<Rightarrow>
          \<lparr>res_target_id = target_id, res_total = tot, res_max_possible = maxp,
           res_validated = (tot \<ge> threshold), res_threshold = threshold,
           res_details = dets\<rparr>)"

text \<open>\<^verbatim>\<open>INSERT OR REPLACE INTO score_totals\<close>: the cached aggregate of the target.\<close>

definition write_score_total :: "rat \<Rightarrow> score_result \<Rightarrow> graph_db \<Rightarrow> graph_db" where
  "write_score_total now r db =
     db\<lparr>score_totals :=
          filter (\<lambda>row. tot_target_id row \<noteq> res_target_id r) (score_totals db) @
          [\<lparr>tot_target_id = res_target_id r, tot_total = res_total r,
            tot_max_possible = res_max_possible r,
            tot_validated = int_of_bool (res_validated r),
            tot_threshold = res_threshold r, tot_details = res_details r,
            tot_computed_at = now\<rparr>]\<rparr>"

text \<open>
  The status of the linked entity: \<^verbatim>\<open>if t and t["entity_id"]\<close> then
  \<^verbatim>\<open>UPDATE entities SET status=?, updated_at=? WHERE id=?\<close>.
\<close>

definition update_entity_status :: "rat \<Rightarrow> int \<Rightarrow> bool \<Rightarrow> graph_db \<Rightarrow> graph_db" where
  "update_entity_status now target_id validated db =
     (case find (\<lambda>r. tgt_id r = target_id) (targets db) of
        None \<Rightarrow> db
      | Some t \<Rightarrow>
          if tgt_entity_id t \<noteq> 0 then
            db\<lparr>entities :=
                 map (\<lambda>e. if ent_id e = tgt_entity_id t
                           then e\<lparr>ent_status := (if validated then ''validated'' else ''scored''),
                                  ent_updated_at := now\<rparr>
                           else e)
                   (entities db)\<rparr>
          else db)"

text \<open>
  \<^verbatim>\<open>compute_score\<close> reads the clock twice: \<open>now\<close> stamps the aggregate, \<open>now_entity\<close>
  the entity whose status it updates. \<^verbatim>\<open>int(...)\<close> of the stored threshold raises before
  anything is written; the write to \<^verbatim>\<open>score_totals\<close> fails for a target that does not
  exist.
\<close>

definition compute_score ::
  "rat \<Rightarrow> rat \<Rightarrow> graph_db \<Rightarrow> int \<Rightarrow> db_error + (score_result \<times> graph_db)" where
  "compute_score now now_entity db target_id =
     (case py_int (get_config db ''threshold'' ''60'') of
        Inl err \<Rightarrow> Inl err
      | Inr threshold \<Rightarrow>
          let r = aggregate db target_id threshold
          in if \<not> target_exists db target_id then Inl IntegrityError
             else Inr (r, update_entity_status now_entity target_id (res_validated r)
                            (write_score_total now r db)))"

definition get_score :: "graph_db \<Rightarrow> int \<Rightarrow> score_total_row option" where
  "get_score db target_id = find (\<lambda>r. tot_target_id r = target_id) (score_totals db)"

text \<open>
  What SQLite and \<^verbatim>\<open>AUTOINCREMENT\<close> maintain on the store: the sequence counter and the
  entity ids are positive, and every target references an entity. The empty store has
  the property and every operation above keeps it.
\<close>

definition store_consistent :: "graph_db \<Rightarrow> bool" where
  "store_consistent db =
     (0 \<le> entities_seq db
      \<and> list_all (\<lambda>e. 1 \<le> ent_id e) (entities db)
      \<and> list_all (\<lambda>t. entity_exists db (tgt_entity_id t)) (targets db))"

section \<open>Example inputs\<close>

text \<open>
  An engine of target 2 and budget 500 on which one hit of two results was reported:
  the target is reached after a single action.
\<close>

definition engine_at_target :: CostEngine where
  "engine_at_target =
     report_result (\<lambda>x. 1) 1
       (add_source 0 (new_engine 0 2 30 20 1 (1 / 10) (1 / 20) 500) ''direct'' 90)
       ''direct'' 2 1 0 ''q''"


text \<open>A strategy of three steps with priorities 10, 90 and 50.\<close>

definition strategy_10_90_50 :: Strategy where
  "strategy_10_90_50 =
     \<lparr>strat_name = ''Direct'', tier = ''direct'', tier_label = ''Strategie directe'',
      strat_description = '''',
      steps =
        [Step ''S1'' ''schools'' '''' [''film school {city}''] '''' [] ''university'' 10 '''' ''always'',
         Step ''S2'' ''press'' '''' [''press {state}''] '''' [] ''press'' 90 '''' ''always'',
         Step ''S3'' ''alumni'' '''' [''alumni {city} {country}''] '''' [] ''directory'' 50 '''' ''always''],
      estimated_cost = ''low'', estimated_yield = ''high'', strat_priority = 1\<rparr>"

text \<open>Calls that pass no keyword argument, and one that passes the city.\<close>

definition no_entity_kwargs :: entity_kwargs where
  "no_entity_kwargs =
     \<lparr>kw_subkind = None, kw_city = None, kw_state = None, kw_country = None,
      kw_institution = None, kw_year = None, kw_source_url = None, kw_source_type = None,
      kw_status = None, kw_metadata = None\<rparr>"

definition no_target_kwargs :: target_kwargs where
  "no_target_kwargs =
     \<lparr>kw_name = None, kw_description = None, kw_followers = None, kw_last_activity = None,
      kw_is_active = None, kw_keywords = None, kw_location_detected = None,
      kw_topic_detected = None, kw_is_creator = None, kw_external_links = None,
      kw_raw_data = None\<rparr>"

text \<open>The store after one entity of Austin was added to the empty store at time 1.\<close>

definition store_one_entity :: graph_db where
  "store_one_entity =
     snd (add_entity 1 empty_db ''John Doe'' ''person'' (no_entity_kwargs\<lparr>kw_city := Some ''Austin''\<rparr>))"


text \<open>The store after a channel of that entity was added at time 2.\<close>

definition store_one_target :: graph_db where
  "store_one_target =
     snd (projr (add_target 2 store_one_entity ''https://youtube.com/@johndoe'' 1 ''youtube''
                   no_target_kwargs))"

text \<open>
  Two criteria of 30 points with threshold 60 on the store of one target, and the first
  of them recorded as met for that target.
\<close>

definition two_criteria :: "criterion_spec list" where
  "two_criteria =
     [\<lparr>spec_name = Some ''diplome_confirme'', spec_label = Some ''Diplome confirme'',
       spec_description = None, spec_points = Some 30, spec_category = None\<rparr>,
      \<lparr>spec_name = Some ''localisation_bio'', spec_label = None,
       spec_description = None, spec_points = Some 30, spec_category = None\<rparr>]"

definition store_configured :: graph_db where
  "store_configured = projr (configure_criteria store_one_target two_criteria 60)"

definition store_scored :: graph_db where
  "store_scored =
     projr (set_criterion 5 store_configured 1 ''diplome_confirme'' True ''UT Austin 2023'')"

section \<open>Properties of the cost/value engine\<close>

lemma get_source_add_source_fresh:
  "get_source e nm = None \<Longrightarrow>
   get_source (add_source now e nm prio) nm =
     Some \<lparr>name = nm, priority = prio, attempts = 0, hits = 0, misses = 0,
            total_cost = 0, total_value = 0, patience = patience_initial e,
            exhausted = False, last_hit_at = 0, created_at = now\<rparr>"
  by (simp add: add_source_def get_source_def map_add_def)

lemma add_source_config:
  "patience_drain (add_source now e nm prio) = patience_drain e"
  "patience_initial (add_source now e nm prio) = patience_initial e"
  by (simp_all add: add_source_def split: option.splits)

lemma report_result_miss:
  assumes "get_source e nm = Some src"
  shows "get_source (report_result expf now e nm 0 cst val qry) nm =
           Some (if patience src - patience_drain e \<le> 0
                 then src\<lparr>attempts := attempts src + 1, total_cost := total_cost src + cst,
                          misses := misses src + 1, patience := 0, exhausted := True\<rparr>
                 else src\<lparr>attempts := attempts src + 1, total_cost := total_cost src + cst,
                          misses := misses src + 1,
                          patience := patience src - patience_drain e\<rparr>)"
  using assms
  by (simp add: report_result_def get_source_def Let_def update_conv')

lemma report_result_config:
  "patience_drain (report_result expf now e nm fnd cst val qry) = patience_drain e"
  "patience_initial (report_result expf now e nm fnd cst val qry) = patience_initial e"
  by (simp_all add: report_result_def Let_def split: option.splits prod.splits)

lemma report_misses_snoc:
  "report_misses expf e nm (ms @ [(now, cst, val, qry)]) =
   report_result expf now (report_misses expf e nm ms) nm 0 cst val qry"
  by (induction expf e nm ms rule: report_misses.induct) simp_all

lemma report_misses_config:
  "patience_drain (report_misses expf e nm ms) = patience_drain e"
  by (induction expf e nm ms rule: report_misses.induct) (simp_all add: report_result_config)

lemma drain_positive_when_spent:
  fixes p d :: int
  assumes "0 < p" "p - int k * d \<le> 0"
  shows "0 < d"
proof (rule ccontr)
  assume "\<not> 0 < d"
  then have "d \<le> 0" by simp
  then have "int k * d \<le> 0" by (simp add: mult_nonneg_nonpos)
  with assms show False by simp
qed

lemma patience_run:
  assumes fresh: "get_source e nm = Some src" "patience src = p" "\<not> exhausted src" "0 < p"
  shows "\<exists>s. get_source (report_misses expf e nm ms) nm = Some s \<and>
             patience s = max 0 (p - int (length ms) * patience_drain e) \<and>
             (exhausted s \<longleftrightarrow> p - int (length ms) * patience_drain e \<le> 0)"
proof (induction ms rule: rev_induct)
  case Nil
  with fresh show ?case by simp
next
  case (snoc m ms)
  obtain now cst val qry where m: "m = (now, cst, val, qry)" by (cases m) auto
  define d where "d = patience_drain e"
  define a where "a = p - int (length ms) * d"
  define b where "b = p - int (length (ms @ [m])) * d"
  from snoc obtain s where s: "get_source (report_misses expf e nm ms) nm = Some s"
    "patience s = max 0 a" "exhausted s \<longleftrightarrow> a \<le> 0"
    unfolding a_def d_def by blast
  have b: "b = a - d" by (simp add: a_def b_def algebra_simps)
  let ?e' = "report_misses expf e nm (ms @ [m])"
  have drain: "patience_drain (report_misses expf e nm ms) = d"
    by (simp add: d_def report_misses_config)
  have "\<exists>s'. get_source ?e' nm = Some s' \<and> patience s' = max 0 b \<and> (exhausted s' \<longleftrightarrow> b \<le> 0)"
  proof (cases "a \<le> 0")
    case True
    then have "0 < d" using drain_positive_when_spent [OF fresh(4), of "length ms" d]
      by (simp add: a_def)
    with True s b drain show ?thesis
      by (simp add: m report_misses_snoc report_result_miss [OF s(1)])
  next
    case False
    with s b drain show ?thesis
      by (simp add: m report_misses_snoc report_result_miss [OF s(1)] max_def)
  qed
  then show ?case unfolding b_def d_def .
qed


lemma run_op_stopped: "stopped e \<Longrightarrow> stopped (run_op expf op e)"
proof (cases op)
  case (AddSource now nm prio)
  assume "stopped e"
  then show ?thesis by (simp add: AddSource add_source_def split: option.splits)
next
  case (ReportResult now nm fnd cst val qry)
  assume "stopped e"
  then show ?thesis
    by (simp add: ReportResult report_result_def Let_def split: option.splits prod.splits)
next
  case ShouldStop
  assume "stopped e"
  then show ?thesis by (simp add: ShouldStop should_stop_def)
next
  case ForceStop
  show ?thesis by (simp add: ForceStop force_stop_def stop_def)
qed

lemma run_ops_stopped: "stopped e \<Longrightarrow> stopped (run_ops expf ops e)"
  unfolding run_ops_def
  by (induction ops arbitrary: e) (simp_all add: run_op_stopped)

lemma should_stop_sets_stopped: "fst (should_stop e) \<Longrightarrow> stopped (snd (should_stop e))"
  by (simp add: should_stop_def stop_def Let_def split: if_splits)

lemma should_stop_when_stopped: "stopped e \<Longrightarrow> should_stop e = (True, e)"
  by (simp add: should_stop_def)

text \<open>
  C2 (amended). A source registered fresh on an engine whose \<open>patience_initial\<close> \<open>p\<close>
  is positive has, after \<open>k\<close> consecutive misses reported via \<open>report_result\<close>, patience
  \<open>max 0 (p - k * d)\<close> for the engine's drain \<open>d\<close>, and it is exhausted exactly when
  that value is 0. With \<open>p = 30\<close> and \<open>d = 1\<close> it is exhausted exactly from the 30th
  miss on.
\<close>

theorem patience_after_misses:
  assumes "get_source e nm = None" and "0 < patience_initial e"
  shows "map_option patience
           (get_source (report_misses expf (add_source now e nm prio) nm ms) nm) =
           Some (max 0 (patience_initial e - int (length ms) * patience_drain e))
       \<and> map_option exhausted
           (get_source (report_misses expf (add_source now e nm prio) nm ms) nm) =
           Some (max 0 (patience_initial e - int (length ms) * patience_drain e) = 0)
       \<and> (patience_initial e = 30 \<and> patience_drain e = 1 \<longrightarrow>
           map_option exhausted
             (get_source (report_misses expf (add_source now e nm prio) nm ms) nm) =
             Some (30 \<le> length ms))"
proof -
  let ?e = "add_source now e nm prio"
  let ?v = "patience_initial e - int (length ms) * patience_drain e"
  from patience_run [OF get_source_add_source_fresh [OF assms(1)],
      where p = "patience_initial e" and expf = expf and ms = ms] assms(2)
  obtain s where s: "get_source (report_misses expf ?e nm ms) nm = Some s"
    "patience s = max 0 ?v" "exhausted s \<longleftrightarrow> ?v \<le> 0"
    by (auto simp: add_source_config)
  have "exhausted s \<longleftrightarrow> max 0 ?v = 0" using s(3) by (simp add: max_def)
  moreover have "patience_initial e = 30 \<and> patience_drain e = 1 \<longrightarrow>
      (exhausted s \<longleftrightarrow> 30 \<le> length ms)"
    using s(3) by auto
  ultimately show ?thesis using s(1,2) by simp
qed

theorem patience_after_misses_witness:
  "get_source (new_engine 0 10 30 20 1 (1 / 10) (1 / 20) 500) ''direct'' = None
   \<and> 0 < patience_initial (new_engine 0 10 30 20 1 (1 / 10) (1 / 20) 500)
   \<and> map_option patience
       (get_source
          (report_misses (\<lambda>x. 1)
             (add_source 0 (new_engine 0 10 30 20 1 (1 / 10) (1 / 20) 500) ''direct'' 90)
             ''direct'' [(1, 1, 0, ''q1''), (2, 1, 0, ''q2''), (3, 1, 0, ''q3'')])
          ''direct'') = Some 27
   \<and> map_option exhausted
       (get_source
          (report_misses (\<lambda>x. 1)
             (add_source 0 (new_engine 0 10 30 20 1 (1 / 10) (1 / 20) 500) ''direct'' 90)
             ''direct'' [(1, 1, 0, ''q1''), (2, 1, 0, ''q2''), (3, 1, 0, ''q3'')])
          ''direct'') = Some False"
  using patience_after_misses
    [of "new_engine 0 10 30 20 1 (1 / 10) (1 / 20) 500" "''direct''" "\<lambda>x. 1" 0 90
        "[(1, 1, 0, ''q1''), (2, 1, 0, ''q2''), (3, 1, 0, ''q3'')]"]
  by (simp add: new_engine_def get_source_def)

text \<open>
  C2 as stated fails for an engine with \<open>patience_initial = 0\<close>: the freshly registered
  source has patience \<open>0 = max 0 (0 - 0 * 1)\<close> before any miss, and is not exhausted.
\<close>

theorem patience_after_misses_counterexample:
  "map_option (\<lambda>s. (patience s, exhausted s))
     (get_source
        (report_misses (\<lambda>x. 1)
           (add_source 0 (new_engine 0 10 0 20 1 (1 / 10) (1 / 20) 500) ''direct'' 90)
           ''direct'' [])
        ''direct'') = Some (max 0 (0 - 0 * 1), False)"
  by (simp add: new_engine_def get_source_def add_source_def)


text \<open>
  C3. On an engine that has not stopped yet, \<open>should_stop\<close> returns true as soon as
  \<open>total_found \<ge> target_count\<close>, whatever \<open>total_actions\<close> and the budget are, and
  records a stop reason that starts with \<open>target_reached\<close>. The conditions are checked in
  the order target, budget, sources: the budget reason is recorded only when the target
  was not reached, the sources reason only when neither of the first two fired. Once
  \<open>should_stop\<close> has returned true it returns true after every further run of engine
  calls, and leaves the engine as it finds it.
\<close>

theorem should_stop_order_terminal:
  "(\<not> stopped e \<and> target_count e \<le> total_found e \<longrightarrow>
      should_stop e =
        (True, e\<lparr>stopped := True,
                 stop_reason := ''target_reached: Found '' @ str_int (total_found e) @ ''/'' @
                                str_int (target_count e) @ '' targets''\<rparr>))
   \<and> (\<not> stopped e \<and> total_found e < target_count e \<and> global_budget e \<le> total_actions e \<longrightarrow>
      should_stop e =
        (True, e\<lparr>stopped := True,
                 stop_reason := ''budget_exhausted: Used '' @ str_int (total_actions e) @ ''/'' @
                                str_int (global_budget e) @ '' actions''\<rparr>))
   \<and> (\<not> stopped e \<and> total_found e < target_count e \<and> total_actions e < global_budget e \<longrightarrow>
      should_stop e =
        (if sources e \<noteq> [] \<and> list_all (\<lambda>kv. exhausted (snd kv)) (sources e)
         then (True, e\<lparr>stopped := True,
                 stop_reason := ''all_sources_exhausted: All '' @
                                str_int (int (length (sources e))) @ '' sources exhausted''\<rparr>)
         else (False, e)))
   \<and> (fst (should_stop e) \<longrightarrow>
      should_stop (run_ops expf ops (snd (should_stop e))) =
        (True, run_ops expf ops (snd (should_stop e))))"
proof -
  have all_exh: "(filter (\<lambda>s. \<not> exhausted s) (map snd (sources e)) = []) =
      list_all (\<lambda>kv. exhausted (snd kv)) (sources e)"
    by (induction "sources e") (auto simp: filter_empty_conv list_all_iff)
  have t: "\<not> stopped e \<and> target_count e \<le> total_found e \<longrightarrow>
      should_stop e =
        (True, e\<lparr>stopped := True,
                 stop_reason := ''target_reached: Found '' @ str_int (total_found e) @ ''/'' @
                                str_int (target_count e) @ '' targets''\<rparr>)"
    by (simp add: should_stop_def stop_def)
  have b: "\<not> stopped e \<and> total_found e < target_count e \<and> global_budget e \<le> total_actions e \<longrightarrow>
      should_stop e =
        (True, e\<lparr>stopped := True,
                 stop_reason := ''budget_exhausted: Used '' @ str_int (total_actions e) @ ''/'' @
                                str_int (global_budget e) @ '' actions''\<rparr>)"
    by (simp add: should_stop_def stop_def)
  have x: "\<not> stopped e \<and> total_found e < target_count e \<and> total_actions e < global_budget e \<longrightarrow>
      should_stop e =
        (if sources e \<noteq> [] \<and> list_all (\<lambda>kv. exhausted (snd kv)) (sources e)
         then (True, e\<lparr>stopped := True,
                 stop_reason := ''all_sources_exhausted: All '' @
                                str_int (int (length (sources e))) @ '' sources exhausted''\<rparr>)
         else (False, e))"
    using all_exh by (auto simp: should_stop_def stop_def Let_def)
  have sticky: "fst (should_stop e) \<longrightarrow>
      should_stop (run_ops expf ops (snd (should_stop e))) =
        (True, run_ops expf ops (snd (should_stop e)))"
    by (simp add: should_stop_sets_stopped run_ops_stopped should_stop_when_stopped)
  from t b x sticky show ?thesis by blast
qed

theorem should_stop_order_terminal_witness:
  "\<not> stopped engine_at_target \<and> total_found engine_at_target = 2
   \<and> target_count engine_at_target = 2 \<and> total_actions engine_at_target = 1
   \<and> global_budget engine_at_target = 500
   \<and> should_stop engine_at_target =
       (True, engine_at_target
                \<lparr>stopped := True, stop_reason := ''target_reached: Found 2/2 targets''\<rparr>)
   \<and> fst (should_stop
            (run_ops (\<lambda>x. 1) [ReportResult 2 ''direct'' 0 1 0 ''q2'', ShouldStop]
               (snd (should_stop engine_at_target))))"
proof -
  have f: "\<not> stopped engine_at_target" "total_found engine_at_target = 2"
    "target_count engine_at_target = 2" "total_actions engine_at_target = 1"
    "global_budget engine_at_target = 500"
    by (simp_all add: engine_at_target_def new_engine_def add_source_def get_source_def
        report_result_def Let_def)
  have s: "str_int 2 = ''2''"
    by (simp add: str_int_def str_nat.simps digit_char_def)
  note inst = should_stop_order_terminal
    [of engine_at_target "\<lambda>x. 1" "[ReportResult 2 ''direct'' 0 1 0 ''q2'', ShouldStop]"]
  have a: "should_stop engine_at_target =
      (True, engine_at_target
               \<lparr>stopped := True, stop_reason := ''target_reached: Found 2/2 targets''\<rparr>)"
    using inst [THEN conjunct1] f by (simp add: s)
  have b: "fst (should_stop
      (run_ops (\<lambda>x. 1) [ReportResult 2 ''direct'' 0 1 0 ''q2'', ShouldStop]
         (snd (should_stop engine_at_target))))"
    using inst [THEN conjunct2, THEN conjunct2, THEN conjunct2] a by simp
  from f a b show ?thesis by blast
qed

text \<open>
  C8 (amended). The effective priority of a source is 0 when the source is exhausted; it
  is the initial priority when the source is not exhausted and has no attempt yet;
  otherwise it is
  \<open>max 0 (0.3 * priority + 0.5 * (hit rate * 100) - min 30 (1.5 * drought) + min 20 (5 * ROI))\<close>,
  with hit rate \<open>hits / max 1 attempts\<close>, drought \<open>attempts - last_hit_at\<close> and ROI
  \<open>total_value / max 0.01 total_cost\<close>.
\<close>

theorem effective_priority_formula:
  "effective_priority s =
     (if exhausted s then 0
      else if attempts s = 0 then priority s
      else max 0 (3 / 10 * priority s
                  + 1 / 2 * (of_int (hits s) / of_int (max 1 (attempts s)) * 100)
                  - min 30 (3 / 2 * of_int (attempts s - last_hit_at s))
                  + min 20 (5 * (total_value s / max (1 / 100) (total_cost s)))))"
  by (simp add: effective_priority_def hit_rate_def roi_def drought_def Let_def mult.commute)

theorem effective_priority_formula_witness:
  "effective_priority
     \<lparr>name = ''direct'', priority = 90, attempts = 4, hits = 2, misses = 2,
      total_cost = 4, total_value = 20, patience = 28, exhausted = False,
      last_hit_at = 2, created_at = 0\<rparr> = 69"
  using effective_priority_formula
    [of "\<lparr>name = ''direct'', priority = 90, attempts = 4, hits = 2, misses = 2,
      total_cost = 4, total_value = 20, patience = 28, exhausted = False,
      last_hit_at = 2, created_at = 0\<rparr>"]
  by simp

text \<open>
  C8 as stated fails for a source that has not been tried yet: registered with priority
  50, its effective priority is 50, while the formula of the claim gives
  \<open>max 0 (0.3 * 50 + 0.5 * 0 - min 30 0 + min 20 0) = 15\<close>.
\<close>

theorem effective_priority_formula_counterexample:
  "map_option effective_priority
     (get_source (add_source 0 (new_engine 0 10 30 20 1 (1 / 10) (1 / 20) 500) ''direct'' 50)
        ''direct'') = Some 50
   \<and> map_option
       (\<lambda>s. max 0 (3 / 10 * priority s + 1 / 2 * (hit_rate s * 100)
                   - min 30 (3 / 2 * of_int (drought s)) + min 20 (5 * roi s)))
       (get_source (add_source 0 (new_engine 0 10 30 20 1 (1 / 10) (1 / 20) 500) ''direct'' 50)
          ''direct'') = Some 15"
  by (simp add: new_engine_def add_source_def get_source_def effective_priority_def
      hit_rate_def roi_def drought_def)

text \<open>
  C9. \<open>report_result\<close> for a source name that was never registered returns the engine
  unchanged: no per-source statistics, no counter and no action-log entry changes, and
  there is no error branch.
\<close>

theorem report_result_unknown_source:
  "get_source e nm = None \<Longrightarrow> report_result expf now e nm fnd cst val qry = e"
  by (simp add: report_result_def)

theorem report_result_unknown_source_witness:
  "get_source (add_source 0 (new_engine 0 10 30 20 1 (1 / 10) (1 / 20) 500) ''direct'' 90)
     ''press'' = None
   \<and> report_result (\<lambda>x. 1) 5
       (add_source 0 (new_engine 0 10 30 20 1 (1 / 10) (1 / 20) 500) ''direct'' 90)
       ''press'' 3 2 0 ''q'' =
     add_source 0 (new_engine 0 10 30 20 1 (1 / 10) (1 / 20) 500) ''direct'' 90"
proof -
  have h: "get_source (add_source 0 (new_engine 0 10 30 20 1 (1 / 10) (1 / 20) 500) ''direct'' 90)
     ''press'' = None"
    by (simp add: new_engine_def add_source_def get_source_def)
  show ?thesis using h report_result_unknown_source [OF h] by simp
qed

section \<open>Properties of the candidate score\<close>






section \<open>Properties of the strategy planner\<close>

lemma flatten_steps_walk:
  "flatten_steps strat_nm tr city state ss result =
     result @ walk_steps strat_nm tr city state ss"
  "flatten_step strat_nm tr city state s result =
     result @ walk_steps strat_nm tr city state [s]"
proof (induction strat_nm tr city state ss result and strat_nm tr city state s result
    rule: flatten_steps_flatten_step.induct)
  case (1 strat_nm tr city state result)
  show ?case by (simp add: walk_steps_def)
next
  case (2 strat_nm tr city state s ss result)
  then show ?case by (simp add: walk_steps_def)
next
  case (3 strat_nm tr city state i a d qs eo subs st pr dep cond result)
  show ?case
  proof (cases "subs = []")
    case True
    then show ?thesis by (simp add: walk_steps_def)
  next
    case False
    with 3 show ?thesis by (simp add: walk_steps_def)
  qed
qed

lemma fold_flatten_steps:
  "fold (\<lambda>strat r. flatten_steps (strat_name strat) (tier strat) city state (steps strat) r)
     strategies result = result @ walk_all city state strategies"
  by (induction strategies arbitrary: result) (simp_all add: walk_all_def flatten_steps_walk)

lemma flatten_queries_walk:
  "flatten_queries last_strategies strategies city state =
     sort_key (\<lambda>x. - qd_priority x)
       (walk_all city state (strategies_or_last last_strategies strategies))"
  by (simp add: flatten_queries_def fold_flatten_steps)

text \<open>
  C7. \<open>flatten_queries\<close> returns the queries of the depth-first walk of every
  strategy's step tree, each with the placeholders substituted (\<open>walk_all\<close>), as a
  permutation sorted by descending step priority in which the queries of equal priority
  keep the order of the walk. The strategies walked are those given, or the planner's last
  ones when none are given. Steps of priorities 10, 90, 50 yield their queries in the
  order 90, 50, 10.
\<close>

theorem flatten_queries_sorted_walk:
  "mset (flatten_queries last_strategies strategies city state) =
     mset (walk_all city state (strategies_or_last last_strategies strategies))
   \<and> sorted_wrt (\<lambda>a b. qd_priority a \<ge> qd_priority b)
       (flatten_queries last_strategies strategies city state)
   \<and> filter (\<lambda>q. qd_priority q = p) (flatten_queries last_strategies strategies city state) =
     filter (\<lambda>q. qd_priority q = p)
       (walk_all city state (strategies_or_last last_strategies strategies))"
proof -
  let ?w = "walk_all city state (strategies_or_last last_strategies strategies)"
  let ?r = "flatten_queries last_strategies strategies city state"
  have r: "?r = sort_key (\<lambda>x. - qd_priority x) ?w"
    by (rule flatten_queries_walk)
  have "sorted (map (\<lambda>x. - qd_priority x) ?r)"
    unfolding r by (rule sorted_sort_key)
  then have s: "sorted_wrt (\<lambda>a b. qd_priority a \<ge> qd_priority b) ?r"
    by (simp add: sorted_map)
  have "filter (\<lambda>q. - qd_priority q = - p) ?r = filter (\<lambda>q. - qd_priority q = - p) ?w"
    unfolding r by (rule sort_key_stable)
  then have t: "filter (\<lambda>q. qd_priority q = p) ?r = filter (\<lambda>q. qd_priority q = p) ?w"
    by simp
  have m: "mset ?r = mset ?w" unfolding r by simp
  from m s t show ?thesis by blast
qed

theorem flatten_queries_sorted_walk_witness:
  "strategies_or_last [] (Some [strategy_10_90_50]) = [strategy_10_90_50]
   \<and> map (\<lambda>q. (qd_priority q, qd_query q))
       (walk_all ''Austin'' ''Texas'' [strategy_10_90_50]) =
       [(10, ''film school Austin''), (90, ''press Texas''), (50, ''alumni Austin USA'')]
   \<and> map (\<lambda>q. (qd_priority q, qd_query q))
       (flatten_queries [] (Some [strategy_10_90_50]) ''Austin'' ''Texas'') =
       [(90, ''press Texas''), (50, ''alumni Austin USA''), (10, ''film school Austin'')]
   \<and> mset (flatten_queries [] (Some [strategy_10_90_50]) ''Austin'' ''Texas'') =
       mset (walk_all ''Austin'' ''Texas'' [strategy_10_90_50])
   \<and> sorted_wrt (\<lambda>a b. qd_priority a \<ge> qd_priority b)
       (flatten_queries [] (Some [strategy_10_90_50]) ''Austin'' ''Texas'')"
proof -
  have w: "map (\<lambda>q. (qd_priority q, qd_query q))
       (walk_all ''Austin'' ''Texas'' [strategy_10_90_50]) =
       [(10, ''film school Austin''), (90, ''press Texas''), (50, ''alumni Austin USA'')]"
    by code_simp
  have s: "map (\<lambda>q. (qd_priority q, qd_query q))
       (flatten_queries [] (Some [strategy_10_90_50]) ''Austin'' ''Texas'') =
       [(90, ''press Texas''), (50, ''alumni Austin USA''), (10, ''film school Austin'')]"
    by code_simp
  have n: "strategies_or_last [] (Some [strategy_10_90_50]) = [strategy_10_90_50]"
    by (simp add: strategies_or_last_def)
  from flatten_queries_sorted_walk
    [of "[]" "Some [strategy_10_90_50]" "''Austin''" "''Texas''" 0] w s n
  show ?thesis by simp
qed

section \<open>Properties of the entity-graph scorer\<close>

lemma find_append_first:
  "find P (xs @ ys) = (case find P xs of None \<Rightarrow> find P ys | Some x \<Rightarrow> Some x)"
  by (induction xs) simp_all


lemma find_Some_set: "find P xs = Some x \<Longrightarrow> x \<in> set xs \<and> P x"
  by (induction xs) (auto split: if_splits)

lemma fold_max_ge: "(s :: int) \<le> fold max ids s"
proof (induction ids arbitrary: s)
  case Nil
  show ?case by simp
next
  case (Cons a ids)
  have "s \<le> max a s" by simp
  also have "\<dots> \<le> fold max ids (max a s)" by (rule Cons.IH)
  finally show ?case by simp
qed

lemma fold_max_ge_elem: "(x :: int) \<in> set ids \<Longrightarrow> x \<le> fold max ids s"
proof (induction ids arbitrary: s)
  case Nil
  then show ?case by simp
next
  case (Cons a ids)
  show ?case
  proof (cases "x = a")
    case True
    have "a \<le> max a s" by simp
    also have "\<dots> \<le> fold max ids (max a s)" by (rule fold_max_ge)
    finally show ?thesis using True by simp
  next
    case False
    with Cons show ?thesis by simp
  qed
qed

lemma next_rowid_fresh: "next_rowid seq ids \<notin> set ids"
  using fold_max_ge_elem [of "next_rowid seq ids" ids seq] by (auto simp: next_rowid_def)













lemma set_criterion_consistent:
  "store_consistent db \<Longrightarrow> set_criterion now db t n met ev = Inr db1 \<Longrightarrow> store_consistent db1"
  by (auto simp: set_criterion_def Let_def store_consistent_def entity_exists_def
      split: if_splits)

lemma configure_criteria_consistent:
  "store_consistent db \<Longrightarrow> configure_criteria db crs th = Inr db1 \<Longrightarrow> store_consistent db1"
  by (auto simp: configure_criteria_def set_config_def store_consistent_def entity_exists_def
      split: sum.splits)



subsection \<open>The aggregate\<close>

lemma score_step_scores:
  "scores db' = scores db \<Longrightarrow> score_step db' t = score_step db t"
  by (simp add: score_step_def fun_eq_iff)

lemma aggregate_cong:
  assumes "criteria db' = criteria db" and "scores db' = scores db"
  shows "aggregate db' t th = aggregate db t th"
proof -
  have "score_step db' t = score_step db t"
    using assms(2) by (rule score_step_scores)
  then show ?thesis by (simp add: aggregate_def get_criteria_def assms(1))
qed

lemma write_score_total_frame:
  "criteria (write_score_total now r db) = criteria db"
  "scores (write_score_total now r db) = scores db"
  "config (write_score_total now r db) = config db"
  "targets (write_score_total now r db) = targets db"
  "entities (write_score_total now r db) = entities db"
  "entities_seq (write_score_total now r db) = entities_seq db"
  by (simp_all add: write_score_total_def)

lemma update_entity_status_frame:
  "criteria (update_entity_status now t v db) = criteria db"
  "scores (update_entity_status now t v db) = scores db"
  "config (update_entity_status now t v db) = config db"
  "targets (update_entity_status now t v db) = targets db"
  "score_totals (update_entity_status now t v db) = score_totals db"
  "entities_seq (update_entity_status now t v db) = entities_seq db"
  "map ent_id (entities (update_entity_status now t v db)) = map ent_id (entities db)"
  by (simp_all add: update_entity_status_def comp_def split: option.splits)

lemma compute_score_cases:
  "compute_score now now_entity db t =
     (case py_int (get_config db ''threshold'' ''60'') of
        Inl err \<Rightarrow> Inl err
      | Inr th \<Rightarrow>
          if target_exists db t
          then Inr (aggregate db t th,
                    update_entity_status now_entity t (res_validated (aggregate db t th))
                      (write_score_total now (aggregate db t th) db))
          else Inl IntegrityError)"
  by (simp add: compute_score_def Let_def split: sum.splits)

lemma compute_score_Inr:
  assumes "compute_score now now_entity db t = Inr (r, db1)"
  shows "\<exists>th. py_int (get_config db ''threshold'' ''60'') = Inr th \<and> target_exists db t
           \<and> r = aggregate db t th
           \<and> db1 = update_entity_status now_entity t (res_validated r)
                     (write_score_total now r db)"
proof (cases "py_int (get_config db ''threshold'' ''60'')")
  case (Inl err)
  with assms show ?thesis by (simp add: compute_score_cases)
next
  case (Inr th)
  with assms have ex: "target_exists db t"
    by (simp add: compute_score_cases split: if_splits)
  have eq: "compute_score now now_entity db t =
      Inr (aggregate db t th,
           update_entity_status now_entity t (res_validated (aggregate db t th))
             (write_score_total now (aggregate db t th) db))"
    using Inr ex by (simp add: compute_score_cases)
  have "r = fst (projr (compute_score now now_entity db t))"
    "db1 = snd (projr (compute_score now now_entity db t))"
    by (simp_all add: assms)
  then have "r = aggregate db t th"
    "db1 = update_entity_status now_entity t (res_validated (aggregate db t th))
             (write_score_total now (aggregate db t th) db)"
    by (simp_all only: eq sum.sel fst_conv snd_conv)
  with Inr ex show ?thesis by blast
qed

lemma compute_score_frame:
  assumes "compute_score now now_entity db t = Inr (r, db1)"
  shows "criteria db1 = criteria db" "scores db1 = scores db" "config db1 = config db"
    "targets db1 = targets db" "target_exists db t"
  using compute_score_Inr [OF assms]
  by (auto simp: update_entity_status_frame write_score_total_frame)

lemma compute_score_consistent:
  assumes "store_consistent db" and "compute_score now now_entity db t = Inr (r, db1)"
  shows "store_consistent db1"
proof -
  from compute_score_Inr [OF assms(2)] obtain th where
    db1: "db1 = update_entity_status now_entity t (res_validated r) (write_score_total now r db)"
    by blast
  have ids: "map ent_id (entities db1) = map ent_id (entities db)"
    and tg: "targets db1 = targets db" and sq: "entities_seq db1 = entities_seq db"
    by (simp_all add: db1 update_entity_status_frame write_score_total_frame)
  have ex: "entity_exists db1 = entity_exists db"
    by (simp add: entity_exists_def fun_eq_iff ids)
  have "list_all (\<lambda>i. 1 \<le> i) (map ent_id (entities db))"
    using assms(1) by (simp add: store_consistent_def list_all_iff)
  then have "list_all (\<lambda>i. 1 \<le> i) (map ent_id (entities db1))"
    by (simp only: ids)
  then have pos: "list_all (\<lambda>e. 1 \<le> ent_id e) (entities db1)"
    by (simp add: list_all_iff)
  from assms(1) have "0 \<le> entities_seq db1"
    "list_all (\<lambda>t. entity_exists db1 (tgt_entity_id t)) (targets db1)"
    by (simp_all add: store_consistent_def sq tg ex)
  with pos show ?thesis by (simp add: store_consistent_def)
qed

lemma get_score_written:
  assumes "res_target_id r = t"
  shows "get_score (write_score_total now r db) t =
     Some \<lparr>tot_target_id = t, tot_total = res_total r, tot_max_possible = res_max_possible r,
           tot_validated = int_of_bool (res_validated r), tot_threshold = res_threshold r,
           tot_details = res_details r, tot_computed_at = now\<rparr>"
proof -
  have "find (\<lambda>row. tot_target_id row = t)
      (filter (\<lambda>row. tot_target_id row \<noteq> t) (score_totals db)) = None"
    by (simp add: find_None_iff)
  then show ?thesis
    by (simp add: get_score_def write_score_total_def find_append_first assms)
qed

lemma aggregate_target: "res_target_id (aggregate db t th) = t"
  by (simp add: aggregate_def split: prod.splits)

lemma compute_score_again:
  assumes "compute_score n1 m1 db t = Inr (r1, db1)"
    and "criteria db' = criteria db1" "scores db' = scores db1" "config db' = config db1"
    and "target_exists db' t"
  shows "map_sum id fst (compute_score n2 m2 db' t) = Inr r1"
proof -
  from compute_score_Inr [OF assms(1)] obtain th where
    th: "py_int (get_config db ''threshold'' ''60'') = Inr th" and r1: "r1 = aggregate db t th"
    by blast
  note fr = compute_score_frame [OF assms(1)]
  have cfg: "get_config db' ''threshold'' ''60'' = get_config db ''threshold'' ''60''"
    by (simp add: get_config_def assms(4) fr(3))
  have "aggregate db' t th = aggregate db t th"
    by (rule aggregate_cong) (simp_all add: assms fr)
  then show ?thesis
    by (simp add: compute_score_cases cfg th assms(5) r1)
qed

text \<open>
  C6. When \<open>compute_score\<close> has returned an aggregate for a target, calling it again
  returns the identical aggregate (target, total, maximum, validated flag, threshold and
  breakdown), on the store the first call left and on any store with the same criteria,
  score rows and configuration in which the target exists. The first call caches exactly
  the aggregate it returns.
\<close>

theorem compute_score_idempotent:
  "(compute_score n1 m1 db t = Inr (r1, db1) \<longrightarrow>
      map_sum id fst (compute_score n2 m2 db1 t) = Inr r1)
   \<and> (compute_score n1 m1 db t = Inr (r1, db1) \<and> criteria db' = criteria db1
        \<and> scores db' = scores db1 \<and> config db' = config db1 \<and> target_exists db' t \<longrightarrow>
      map_sum id fst (compute_score n2 m2 db' t) = Inr r1)
   \<and> (compute_score n1 m1 db t = Inr (r1, db1) \<longrightarrow>
      get_score db1 t =
        Some \<lparr>tot_target_id = t, tot_total = res_total r1,
              tot_max_possible = res_max_possible r1,
              tot_validated = int_of_bool (res_validated r1),
              tot_threshold = res_threshold r1, tot_details = res_details r1,
              tot_computed_at = n1\<rparr>)"
proof -
  have a: "compute_score n1 m1 db t = Inr (r1, db1) \<longrightarrow>
      map_sum id fst (compute_score n2 m2 db1 t) = Inr r1"
  proof
    assume h: "compute_score n1 m1 db t = Inr (r1, db1)"
    note fr = compute_score_frame [OF h]
    have "target_exists db1 t" using fr(5) by (simp add: target_exists_def fr(4))
    then show "map_sum id fst (compute_score n2 m2 db1 t) = Inr r1"
      by (intro compute_score_again [OF h]) simp_all
  qed
  have b: "compute_score n1 m1 db t = Inr (r1, db1) \<and> criteria db' = criteria db1
        \<and> scores db' = scores db1 \<and> config db' = config db1 \<and> target_exists db' t \<longrightarrow>
      map_sum id fst (compute_score n2 m2 db' t) = Inr r1"
    using compute_score_again by blast
  have c: "compute_score n1 m1 db t = Inr (r1, db1) \<longrightarrow>
      get_score db1 t =
        Some \<lparr>tot_target_id = t, tot_total = res_total r1,
              tot_max_possible = res_max_possible r1,
              tot_validated = int_of_bool (res_validated r1),
              tot_threshold = res_threshold r1, tot_details = res_details r1,
              tot_computed_at = n1\<rparr>"
  proof
    assume h: "compute_score n1 m1 db t = Inr (r1, db1)"
    from compute_score_Inr [OF h] obtain th where
      r1: "r1 = aggregate db t th"
      and db1: "db1 = update_entity_status m1 t (res_validated r1) (write_score_total n1 r1 db)"
      by blast
    have "get_score db1 t = get_score (write_score_total n1 r1 db) t"
      by (simp add: db1 get_score_def update_entity_status_frame)
    also have "\<dots> = Some \<lparr>tot_target_id = t, tot_total = res_total r1,
              tot_max_possible = res_max_possible r1,
              tot_validated = int_of_bool (res_validated r1),
              tot_threshold = res_threshold r1, tot_details = res_details r1,
              tot_computed_at = n1\<rparr>"
      by (rule get_score_written) (simp add: r1 aggregate_target)
    finally show "get_score db1 t =
        Some \<lparr>tot_target_id = t, tot_total = res_total r1,
              tot_max_possible = res_max_possible r1,
              tot_validated = int_of_bool (res_validated r1),
              tot_threshold = res_threshold r1, tot_details = res_details r1,
              tot_computed_at = n1\<rparr>" .
  qed
  from a b c show ?thesis by blast
qed

end
